theory Spec2Isabelle
  imports Main
begin

section \<open>Data model of controller/nixie/circuits/Circuit.ts\<close>

text \<open>
  A string-typed property of a JavaScript object may hold a string, \<^verbatim>\<open>undefined\<close> or
  \<^verbatim>\<open>null\<close>. The two binding fields of a circuit are tested in both ways by the source
  (\<^verbatim>\<open>utils.isNullOrEmpty\<close> in one method, \<^verbatim>\<open>typeof x !== 'undefined' && x !== ''\<close>
  in another), so the three cases are kept apart.
\<close>

datatype jsstring = Undefined | Null | Str string

text \<open>Interpolation of such a value into a template string.\<close>

fun js_to_string :: "jsstring \<Rightarrow> string" where
  "js_to_string Undefined = ''undefined''"
| "js_to_string Null = ''null''"
| "js_to_string (Str s) = s"

text \<open>
  Modelled from the spec: \<^verbatim>\<open>utils.isNullOrEmpty\<close> lives in controller/Constants.ts, which
  is not among the sources. The spec calls a unit virtual when either binding field is
  absent or empty; absent is \<^verbatim>\<open>undefined\<close> or \<^verbatim>\<open>null\<close>, empty is the string of length 0.
\<close>

fun isNullOrEmpty :: "jsstring \<Rightarrow> bool" where
  "isNullOrEmpty Undefined = True"
| "isNullOrEmpty Null = True"
| "isNullOrEmpty (Str s) = (s = [])"

text \<open>A thrown JavaScript error: its \<^verbatim>\<open>name\<close> and its \<^verbatim>\<open>message\<close>.\<close>

datatype js_error = JsError (err_name: string) (message: string)


text \<open>
  An error interpolated into a template string (\<^verbatim>\<open>Error.prototype.toString\<close>): the name
  alone when the message is empty, the message alone when the name is empty, otherwise
  the name, a colon and the message.
\<close>

definition err_to_string :: "js_error \<Rightarrow> string" where
  "err_to_string e =
     (if err_name e = [] then message e
      else if message e = [] then err_name e
      else err_name e @ '': '' @ message e)"

text \<open>
  \<^verbatim>\<open>Circuit\<close> (controller/Equipment.ts) as far as this file reads it: the configuration
  entry of one circuit. The field \<^verbatim>\<open>id\<close> is named \<open>circuit_id\<close> here, \<^verbatim>\<open>name\<close> is
  \<open>circuit_name\<close>.
\<close>

record Circuit =
  circuit_id :: int
  circuit_name :: string
  master :: int
  connectionId :: jsstring
  deviceBinding :: jsstring

text \<open>
  \<^verbatim>\<open>ICircuitState\<close> / \<^verbatim>\<open>CircuitState\<close> (controller/State.ts): the published state of a
  circuit. \<open>commStatus\<close> is 0 for OK and 1 for a fault.
\<close>

record ICircuitState =
  cstate_id :: int
  cstate_name :: string
  isOn :: bool
  commStatus :: int

text \<open>
  \<^verbatim>\<open>InterfaceServerResponse\<close> (web/Server.ts): a status code, a status message and a body.
  \<^verbatim>\<open>new InterfaceServerResponse(200, 'Success')\<close> has no body.
\<close>

record InterfaceServerResponse =
  status_code :: int
  status_message :: string
  body :: "string option"

definition new_InterfaceServerResponse :: "int \<Rightarrow> string \<Rightarrow> InterfaceServerResponse" where
  "new_InterfaceServerResponse c m = \<lparr>status_code = c, status_message = m, body = None\<rparr>"

text \<open>The body of the PUT that sets a device: \<^verbatim>\<open>{ isOn: val, latch: val ? 7000 : undefined }\<close>.\<close>

record put_data =
  put_isOn :: bool
  latch :: "int option"

text \<open>What the GET of a device status yields: an object with a \<^verbatim>\<open>hasFault\<close> property, which
  may be missing (\<open>None\<close>, falsy in JavaScript).\<close>

record device_status =
  hasFault :: "bool option"

text \<open>
  The device service (\<^verbatim>\<open>NixieEquipment.putDeviceService\<close> and \<^verbatim>\<open>getDeviceService\<close>, in
  controller/nixie/NixieEquipment.ts) is outside the sources: it is a parameter of every
  function that calls it. A call either throws (\<open>Inl\<close>) or returns (\<open>Inr\<close>). The GET is
  typed \<^verbatim>\<open>any\<close>: it may return no object at all (\<open>Inr None\<close>).
\<close>

type_synonym put_service = "jsstring \<Rightarrow> string \<Rightarrow> put_data \<Rightarrow> js_error + InterfaceServerResponse"
type_synonym get_service = "jsstring \<Rightarrow> string \<Rightarrow> js_error + device_status option"

text \<open>The logger: what was logged, oldest entry first.\<close>

datatype log_level = Info | Debug | Error

type_synonym log = "(log_level \<times> string) list"

definition logger_info :: "string \<Rightarrow> log \<Rightarrow> log" where
  "logger_info msg lg = lg @ [(Info, msg)]"

definition logger_debug :: "string \<Rightarrow> log \<Rightarrow> log" where
  "logger_debug msg lg = lg @ [(Debug, msg)]"

definition logger_error :: "string \<Rightarrow> log \<Rightarrow> log" where
  "logger_error msg lg = lg @ [(Error, msg)]"

text \<open>
  Interpolation of a number and of a boolean into a template string. The ids are whole
  numbers: JavaScript prints a whole number of magnitude below ten to the power 21 in decimal, a
  negative one with a leading minus sign, and \<open>number_to_string\<close> is that printing.
  From ten to the power 21 on JavaScript prints in exponent notation, which \<open>number_to_string\<close>
  does not follow: a statement about the text of a message that holds a number is made
  for numbers below that bound.
\<close>

fun digit_of :: "nat \<Rightarrow> char" where
  "digit_of n = ''0123456789'' ! (n mod 10)"

function digits_of :: "nat \<Rightarrow> string" where
  "digits_of n = (if 10 \<le> n then digits_of (n div 10) @ [digit_of n] else [digit_of n])"
  by pat_completeness auto
termination
  by (relation "measure (\<lambda>n. n)") auto

declare digits_of.simps [simp del]

definition number_to_string :: "int \<Rightarrow> string" where
  "number_to_string i = (if 0 \<le> i then digits_of (nat i) else CHR ''-'' # digits_of (nat (- i)))"

definition boolean_to_string :: "bool \<Rightarrow> string" where
  "boolean_to_string b = (if b then ''true'' else ''false'')"

text \<open>
  \<^verbatim>\<open>NixieCircuit\<close>: the control panel handed to the constructor and the circuit. The
  constructor is typed \<^verbatim>\<open>circuit: Circuit\<close>, so the circuit of a unit is a circuit and the
  getter \<^verbatim>\<open>id\<close> returns its id.
\<close>

record 'cp NixieCircuit =
  controlPanel :: 'cp
  circuit :: Circuit

definition new_NixieCircuit :: "'cp \<Rightarrow> Circuit \<Rightarrow> 'cp NixieCircuit" where
  "new_NixieCircuit ncp c = \<lparr>controlPanel = ncp, circuit = c\<rparr>"

definition NixieCircuit_id :: "'cp NixieCircuit \<Rightarrow> int" where
  "NixieCircuit_id this = circuit_id (circuit this)"

text \<open>
  The published state of every circuit id (\<^verbatim>\<open>state.circuits\<close>) and the log are what a
  unit's close operation works on.
\<close>

record World =
  circuits :: "int \<Rightarrow> ICircuitState"
  log :: log

text \<open>
  Modelled from the spec: \<^verbatim>\<open>state.circuits.getItemById\<close> (controller/State.ts) is not among
  the sources; the spec describes a live-state store keyed by id that exposes get and set
  of the state of every id.
\<close>

definition getItemById :: "(int \<Rightarrow> ICircuitState) \<Rightarrow> int \<Rightarrow> ICircuitState" where
  "getItemById store i = store i"

section \<open>NixieCircuit\<close>

text \<open>
  \<^verbatim>\<open>NixieCircuit.setCircuitAsync(data)\<close>: the body reads \<^verbatim>\<open>this.circuit\<close> and nothing else.
  The function returns its outcome, the unit and the log after the call.
\<close>

definition NixieCircuit_setCircuitAsync ::
  "'cp NixieCircuit \<Rightarrow> 'd \<Rightarrow> log \<Rightarrow> (js_error + unit) \<times> 'cp NixieCircuit \<times> log" where
  "NixieCircuit_setCircuitAsync this data lg = (let c = circuit this in (Inr (), this, lg))"

text \<open>
  \<^verbatim>\<open>NixieCircuit.setCircuitStateAsync(cstate, val)\<close>. The result is what the promise
  settles to: \<open>Inl\<close> a rejection, \<open>Inr None\<close> the value \<^verbatim>\<open>undefined\<close> (the catch block
  logs and falls off the end), \<open>Inr (Some r)\<close> a response. The state object and the log
  are returned as the call leaves them. \<open>putState\<close> is the call of
  \<^verbatim>\<open>NixieEquipment.putDeviceService\<close> that the method makes.
\<close>

definition putState :: "put_service \<Rightarrow> 'cp NixieCircuit \<Rightarrow> bool \<Rightarrow> js_error + InterfaceServerResponse" where
  "putState put_svc this val =
     put_svc (connectionId (circuit this))
       (''/state/device/'' @ js_to_string (deviceBinding (circuit this)))
       \<lparr>put_isOn = val, latch = (if val then Some 7000 else None)\<rparr>"

definition NixieCircuit_setCircuitStateAsync ::
  "put_service \<Rightarrow> 'cp NixieCircuit \<Rightarrow> ICircuitState \<Rightarrow> bool \<Rightarrow> log
     \<Rightarrow> (js_error + InterfaceServerResponse option) \<times> ICircuitState \<times> log" where
  "NixieCircuit_setCircuitStateAsync put_svc this cstate val lg =
     (let lg1 = (if val \<noteq> isOn cstate
                 then logger_info (''NCP: Setting Circuit '' @ cstate_name cstate @ '' to '' @ boolean_to_string val) lg
                 else lg)
      in if isNullOrEmpty (connectionId (circuit this)) \<or> isNullOrEmpty (deviceBinding (circuit this))
         then (Inr (Some (new_InterfaceServerResponse 200 ''Success'')), cstate\<lparr>isOn := val\<rparr>, lg1)
         else (case putState put_svc this val of
                 Inr res \<Rightarrow>
                   (Inr (Some res), (if status_code res = 200 then cstate\<lparr>isOn := val\<rparr> else cstate), lg1)
               | Inl err \<Rightarrow>
                   (Inr None, cstate,
                    logger_error (''Nixie: Error setting circuit state '' @ number_to_string (cstate_id cstate)
                       @ ''-'' @ cstate_name cstate @ '' to '' @ boolean_to_string val) lg1)))"

text \<open>
  \<^verbatim>\<open>NixieCircuit.checkHardwareStatusAsync\<close>: the GET; a throw is logged and answered with
  \<^verbatim>\<open>{ hasFault: true }\<close>.
\<close>

definition checkHardwareStatusAsync ::
  "get_service \<Rightarrow> jsstring \<Rightarrow> jsstring \<Rightarrow> log \<Rightarrow> device_status option \<times> log" where
  "checkHardwareStatusAsync get_svc conn binding lg =
     (case get_svc conn (''/status/device/'' @ js_to_string binding) of
        Inr dev \<Rightarrow> (dev, lg)
      | Inl err \<Rightarrow>
          (Some \<lparr>hasFault = Some True\<rparr>,
           logger_error (''Nixie Circuit checkHardwareStatusAsync: '' @ message err) lg))"

text \<open>The test of \<^verbatim>\<open>validateSetupAsync\<close> on a binding field:
  \<^verbatim>\<open>typeof x !== 'undefined' && x !== ''\<close>.\<close>

fun defined_nonempty :: "jsstring \<Rightarrow> bool" where
  "defined_nonempty Undefined = False"
| "defined_nonempty Null = True"
| "defined_nonempty (Str s) = (s \<noteq> [])"

text \<open>
  \<^verbatim>\<open>NixieCircuit.validateSetupAsync(circuit, cstate)\<close>. Reading \<^verbatim>\<open>stat.hasFault\<close> of no
  object throws a TypeError, which the inner catch turns into status 1; a missing
  \<^verbatim>\<open>hasFault\<close> is falsy.
\<close>

definition validateSetupAsync ::
  "get_service \<Rightarrow> 'cp NixieCircuit \<Rightarrow> Circuit \<Rightarrow> ICircuitState \<Rightarrow> log
     \<Rightarrow> (js_error + unit) \<times> ICircuitState \<times> log" where
  "validateSetupAsync get_svc this c cstate lg =
     (if defined_nonempty (connectionId c) \<and> defined_nonempty (deviceBinding c)
      then (case checkHardwareStatusAsync get_svc (connectionId c) (deviceBinding c) lg of
              (Some stat, lg1) \<Rightarrow>
                (Inr (), cstate\<lparr>commStatus := (if hasFault stat = Some True then 1 else 0)\<rparr>, lg1)
            | (None, lg1) \<Rightarrow> (Inr (), cstate\<lparr>commStatus := 1\<rparr>, lg1))
      else (Inr (), cstate\<lparr>commStatus := 0\<rparr>, lg))"

text \<open>
  \<^verbatim>\<open>NixieCircuit.closeAsync\<close>: looks the state of the unit's id up and sets the circuit off.
  The catch block logs and rejects with the error it caught.
\<close>

definition NixieCircuit_closeAsync ::
  "put_service \<Rightarrow> 'cp NixieCircuit \<Rightarrow> World \<Rightarrow> (js_error + unit) \<times> World" where
  "NixieCircuit_closeAsync put_svc this w =
     (let cstate = getItemById (circuits w) (circuit_id (circuit this))
      in case NixieCircuit_setCircuitStateAsync put_svc this cstate False (log w) of
           (Inr res, cstate', lg') \<Rightarrow>
             (Inr (), w\<lparr>circuits := (circuits w)(circuit_id (circuit this) := cstate'), log := lg'\<rparr>)
         | (Inl err, cstate', lg') \<Rightarrow>
             (Inl err, w\<lparr>circuits := (circuits w)(circuit_id (circuit this) := cstate'),
                         log := logger_error (''Nixie Circuit closeAsync: '' @ message err) lg'\<rparr>))"

section \<open>NixieCircuitCollection\<close>

text \<open>
  A number-typed property as this file meets it: left unset (\<^verbatim>\<open>undefined\<close> or \<^verbatim>\<open>null\<close>),
  the value \<^verbatim>\<open>NaN\<close>, or a whole number. Numbers with a fraction and the infinities are not
  considered.
\<close>

datatype jsnumber = Unset | NaN | Number int

text \<open>
  The collection is an array of units that also carries the control panel, the polling
  interval and the handle of its poll timer (\<^verbatim>\<open>_pollTimer\<close>, \<open>None\<close> for \<^verbatim>\<open>null\<close>).
  \<open>items\<close> is the array itself. A new collection has the polling interval 2000.
\<close>

record 'cp NixieCircuitCollection =
  items :: "'cp NixieCircuit list"
  collection_controlPanel :: 'cp
  pollingInterval :: jsnumber
  pollTimer :: "nat option"

definition new_NixieCircuitCollection :: "'cp \<Rightarrow> 'cp NixieCircuitCollection" where
  "new_NixieCircuitCollection ncp =
     \<lparr>items = [], collection_controlPanel = ncp, pollingInterval = Number 2000, pollTimer = None\<rparr>"




text \<open>The element that \<^verbatim>\<open>find\<close> returned is an object of the array: what a method does to
  it shows in the array, at the first position whose element satisfies the test.\<close>

fun update_first :: "('a \<Rightarrow> bool) \<Rightarrow> 'a \<Rightarrow> 'a list \<Rightarrow> 'a list" where
  "update_first P y [] = []"
| "update_first P y (x # xs) = (if P x then y # xs else x # update_first P y xs)"

text \<open>
  \<^verbatim>\<open>NixieCircuitCollection.setCircuitAsync(circuit, data)\<close>. It returns its outcome, the
  collection, the circuit object it was handed (the create path assigns its \<^verbatim>\<open>master\<close>)
  and the log.
\<close>

definition NixieCircuitCollection_setCircuitAsync ::
  "'cp NixieCircuitCollection \<Rightarrow> Circuit \<Rightarrow> 'd \<Rightarrow> log
    \<Rightarrow> (js_error + unit) \<times> 'cp NixieCircuitCollection \<times> Circuit \<times> log" where
  "NixieCircuitCollection_setCircuitAsync this c data lg =
     (case find (\<lambda>elem. NixieCircuit_id elem = circuit_id c) (items this) of
        None \<Rightarrow>
          (let c1 = c\<lparr>master := 1\<rparr>;
               u = new_NixieCircuit (collection_controlPanel this) c1
           in case NixieCircuit_setCircuitAsync u data lg of
                (Inr r, u', lg') \<Rightarrow>
                  (Inr (), this\<lparr>items := items this @ [u']\<rparr>, c1,
                   logger_debug (''NixieController: A circuit was not found for id #''
                      @ number_to_string (circuit_id c1) @ '' creating circuit'') lg')
              | (Inl err, u', lg') \<Rightarrow>
                  (Inl err, this\<lparr>items := items this @ [u']\<rparr>, c1,
                   logger_error (''setCircuitAsync: '' @ message err) lg'))
      | Some u \<Rightarrow>
          (case NixieCircuit_setCircuitAsync u data lg of
             (Inr r, u', lg') \<Rightarrow>
               (Inr (),
                this\<lparr>items := update_first (\<lambda>elem. NixieCircuit_id elem = circuit_id c) u' (items this)\<rparr>,
                c, lg')
           | (Inl err, u', lg') \<Rightarrow>
               (Inl err,
                this\<lparr>items := update_first (\<lambda>elem. NixieCircuit_id elem = circuit_id c) u' (items this)\<rparr>,
                c, logger_error (''setCircuitAsync: '' @ message err) lg')))"

text \<open>
  \<^verbatim>\<open>NixieCircuitCollection.initAsync(circuits)\<close>: \<^verbatim>\<open>this.length = 0\<close>, then the loop over
  the index \<open>i\<close>, with the array built so far in \<open>acc\<close>.
\<close>

function initAsync_loop ::
  "'cp \<Rightarrow> Circuit list \<Rightarrow> nat \<Rightarrow> 'cp NixieCircuit list \<Rightarrow> log \<Rightarrow> 'cp NixieCircuit list \<times> log" where
  "initAsync_loop ncp cs i acc lg =
     (if i < length cs
      then (let c = cs ! i
            in if master c = 1
               then initAsync_loop ncp cs (Suc i) (acc @ [new_NixieCircuit ncp c])
                      (logger_info (''Initializing Nixie circuit '' @ circuit_name c) lg)
               else initAsync_loop ncp cs (Suc i) acc lg)
      else (acc, lg))"
  by pat_completeness auto
termination
  by (relation "measure (\<lambda>(ncp, cs, i, acc, lg). length cs - i)") auto

declare initAsync_loop.simps [simp del]

definition initAsync ::
  "'cp NixieCircuitCollection \<Rightarrow> Circuit list \<Rightarrow> log
    \<Rightarrow> (js_error + unit) \<times> 'cp NixieCircuitCollection \<times> log" where
  "initAsync this cs lg =
     (case initAsync_loop (collection_controlPanel this) cs 0 [] lg of
        (its, lg') \<Rightarrow> (Inr (), this\<lparr>items := its\<rparr>, lg'))"

text \<open>\<^verbatim>\<open>this.splice(i, 1)\<close>.\<close>

definition splice1 :: "nat \<Rightarrow> 'a list \<Rightarrow> 'a list" where
  "splice1 i xs = take i xs @ drop (Suc i) xs"

text \<open>
  \<^verbatim>\<open>NixieCircuitCollection.closeAsync\<close>. The loop runs \<open>i\<close> from \<^verbatim>\<open>this.length - 1\<close> down to
  0; \<open>closeAsync_loop unit_close n\<close> is the loop with \<open>n\<close> iterations left, at the index
  \<open>n - 1\<close>. The unit's close method is the argument \<open>unit_close\<close>. Calling a method of
  \<^verbatim>\<open>this[i]\<close> beyond the end of the array throws a TypeError, caught like any other.
\<close>

fun closeAsync_loop ::
  "('u \<Rightarrow> World \<Rightarrow> (js_error + unit) \<times> World) \<Rightarrow> nat \<Rightarrow> 'u list \<Rightarrow> World \<Rightarrow> 'u list \<times> World" where
  "closeAsync_loop unit_close 0 xs w = (xs, w)"
| "closeAsync_loop unit_close (Suc i) xs w =
     (if i < length xs
      then (case unit_close (xs ! i) w of
              (Inr r, w') \<Rightarrow> closeAsync_loop unit_close i (splice1 i xs) w'
            | (Inl err, w') \<Rightarrow>
                closeAsync_loop unit_close i xs
                  (w'\<lparr>log := logger_error (''Error stopping Nixie Circuit '' @ err_to_string err) (log w')\<rparr>))
      else closeAsync_loop unit_close i xs
             (w\<lparr>log := logger_error (''Error stopping Nixie Circuit ''
                  @ err_to_string (JsError ''TypeError'' ''Cannot read properties of undefined (reading closeAsync)''))
                  (log w)\<rparr>))"

definition closeAsync_with ::
  "('cp NixieCircuit \<Rightarrow> World \<Rightarrow> (js_error + unit) \<times> World)
    \<Rightarrow> 'cp NixieCircuitCollection \<Rightarrow> World \<Rightarrow> (js_error + unit) \<times> 'cp NixieCircuitCollection \<times> World" where
  "closeAsync_with unit_close this w =
     (case closeAsync_loop unit_close (length (items this)) (items this) w of
        (its, w') \<Rightarrow> (Inr (), this\<lparr>items := its\<rparr>, w'))"

definition NixieCircuitCollection_closeAsync ::
  "put_service \<Rightarrow> 'cp NixieCircuitCollection \<Rightarrow> World
    \<Rightarrow> (js_error + unit) \<times> 'cp NixieCircuitCollection \<times> World" where
  "NixieCircuitCollection_closeAsync put_svc = closeAsync_with (NixieCircuit_closeAsync put_svc)"

text \<open>\<^verbatim>\<open>NixieCircuitCollection.initCircuitAsync(circuit)\<close>.\<close>

definition initCircuitAsync ::
  "'cp NixieCircuitCollection \<Rightarrow> Circuit
    \<Rightarrow> (js_error + 'cp NixieCircuit) \<times> 'cp NixieCircuitCollection" where
  "initCircuitAsync this c =
     (case find (\<lambda>elem. NixieCircuit_id elem = circuit_id c) (items this) of
        None \<Rightarrow>
          (let u = new_NixieCircuit (collection_controlPanel this) c
           in (Inr u, this\<lparr>items := items this @ [u]\<rparr>))
      | Some u \<Rightarrow> (Inr u, this))"

subsection \<open>The poll timer\<close>

text \<open>
  The timers of the runtime (\<^verbatim>\<open>setTimeout\<close>, \<^verbatim>\<open>clearTimeout\<close> of Node's module
  \<^verbatim>\<open>timers\<close>): the pending timers, each a handle and the delay in milliseconds it is armed
  at, and the next fresh handle. Node arms a timer at the delay asked for when that is
  from 1 to \<open>TIMEOUT_MAX\<close> (2147483647), and at 1 ms when it is below 1 or above
  \<open>TIMEOUT_MAX\<close>. Clearing \<^verbatim>\<open>null\<close> or a handle that is not pending does nothing.
\<close>

record Timers =
  pending :: "(nat \<times> int) list"
  next_handle :: nat

definition TIMEOUT_MAX :: int where
  "TIMEOUT_MAX = 2147483647"

definition setTimeout :: "int \<Rightarrow> Timers \<Rightarrow> nat \<times> Timers" where
  "setTimeout delay t =
     (let after = (if 1 \<le> delay \<and> delay \<le> TIMEOUT_MAX then delay else 1)
      in (next_handle t,
          t\<lparr>pending := pending t @ [(next_handle t, after)], next_handle := Suc (next_handle t)\<rparr>))"

definition clearTimeout :: "nat option \<Rightarrow> Timers \<Rightarrow> Timers" where
  "clearTimeout h t =
     (case h of None \<Rightarrow> t | Some k \<Rightarrow> t\<lparr>pending := filter (\<lambda>p. fst p \<noteq> k) (pending t)\<rparr>)"

text \<open>\<^verbatim>\<open>this.pollingInterval || 10000\<close>: an unset value, \<^verbatim>\<open>NaN\<close> and 0 are falsy.\<close>

fun interval_or :: "jsnumber \<Rightarrow> int \<Rightarrow> int" where
  "interval_or Unset d = d"
| "interval_or NaN d = d"
| "interval_or (Number n) d = (if n = 0 then d else n)"

text \<open>
  \<^verbatim>\<open>NixieCircuitCollection.pollCircuitsAsync\<close>. \<^verbatim>\<open>_pollTimer\<close> is \<^verbatim>\<open>null\<close> or a handle, never
  \<^verbatim>\<open>undefined\<close>, so the test before \<^verbatim>\<open>clearTimeout\<close> holds in every call. The try block
  of the source holds no revalidation pass after \<^verbatim>\<open>let success = false\<close>: the argument
  \<open>pass\<close> stands for statements placed there, \<open>None\<close> when they complete and \<open>Some e\<close>
  when they throw \<open>e\<close>; the method of the source is \<open>pollCircuitsAsync\<close>, where nothing
  throws. The finally block runs on both ways out.
\<close>

definition pollCircuitsAsync_with ::
  "js_error option \<Rightarrow> 'cp NixieCircuitCollection \<Rightarrow> Timers \<Rightarrow> log
    \<Rightarrow> (js_error + unit) \<times> 'cp NixieCircuitCollection \<times> Timers \<times> log" where
  "pollCircuitsAsync_with pass this t lg =
     (let t1 = clearTimeout (pollTimer this) t;
          this1 = this\<lparr>pollTimer := None\<rparr>;
          tried = (case pass of
                     None \<Rightarrow> (Inr (), lg)
                   | Some err \<Rightarrow> (Inl err, logger_error (''Error polling circuits: '' @ message err) lg))
      in case setTimeout (interval_or (pollingInterval this1) 10000) t1 of
           (h, t2) \<Rightarrow> (fst tried, this1\<lparr>pollTimer := Some h\<rparr>, t2, snd tried))"

definition pollCircuitsAsync ::
  "'cp NixieCircuitCollection \<Rightarrow> Timers \<Rightarrow> log
    \<Rightarrow> (js_error + unit) \<times> 'cp NixieCircuitCollection \<times> Timers \<times> log" where
  "pollCircuitsAsync = pollCircuitsAsync_with None"

subsection \<open>What the close loop is meant to do\<close>

text \<open>
  The description of the spec for closing all units, as a function of its own: the units
  are visited one after the other in the order of the list given (the caller hands over
  the array from its tail backward), the close operation of each is called on the world
  the previous calls left; a unit whose close succeeds is dropped, a unit whose close
  throws is kept and the error is logged, and the visit goes on. The result is the list of
  units kept, in the order visited, and the final world.
\<close>

fun close_each ::
  "('u \<Rightarrow> World \<Rightarrow> (js_error + unit) \<times> World) \<Rightarrow> 'u list \<Rightarrow> World \<Rightarrow> 'u list \<times> World" where
  "close_each unit_close [] w = ([], w)"
| "close_each unit_close (u # us) w =
     (case unit_close u w of
        (Inr r, w') \<Rightarrow> close_each unit_close us w'
      | (Inl err, w') \<Rightarrow>
          (case close_each unit_close us
                  (w'\<lparr>log := logger_error (''Error stopping Nixie Circuit '' @ err_to_string err) (log w')\<rparr>) of
             (kept, w'') \<Rightarrow> (u # kept, w'')))"

section \<open>Concrete inputs\<close>

text \<open>Circuits: a virtual one, one bound to connection c1 and device b1, one that is not a
  master, and a configuration of five entries of which two are masters.\<close>

definition circuit_virtual :: Circuit where
  "circuit_virtual = \<lparr>circuit_id = 3, circuit_name = ''Spa Light'', master = 1,
     connectionId = Undefined, deviceBinding = Str []\<rparr>"

definition circuit_bound :: Circuit where
  "circuit_bound = \<lparr>circuit_id = 5, circuit_name = ''Pool Pump'', master = 1,
     connectionId = Str ''c1'', deviceBinding = Str ''b1''\<rparr>"

definition circuit_aux :: Circuit where
  "circuit_aux = \<lparr>circuit_id = 7, circuit_name = ''Aux'', master = 0,
     connectionId = Undefined, deviceBinding = Undefined\<rparr>"

definition five_circuits :: "Circuit list" where
  "five_circuits =
     [circuit_aux, circuit_virtual, circuit_aux\<lparr>circuit_id := 8\<rparr>, circuit_bound,
      circuit_aux\<lparr>circuit_id := 9, master := 2\<rparr>]"

definition unit_virtual :: "nat NixieCircuit" where
  "unit_virtual = new_NixieCircuit 0 circuit_virtual"

definition unit_bound :: "nat NixieCircuit" where
  "unit_bound = new_NixieCircuit 0 circuit_bound"

definition unit_aux :: "nat NixieCircuit" where
  "unit_aux = new_NixieCircuit 0 circuit_aux"

definition collection_empty :: "nat NixieCircuitCollection" where
  "collection_empty = new_NixieCircuitCollection 0"

definition collection_three :: "nat NixieCircuitCollection" where
  "collection_three = (new_NixieCircuitCollection 0)\<lparr>items := [unit_virtual, unit_bound, unit_aux]\<rparr>"

text \<open>Published states, all circuits off or all on.\<close>

definition state_off :: "int \<Rightarrow> ICircuitState" where
  "state_off i = \<lparr>cstate_id = i, cstate_name = ''circuit'', isOn = False, commStatus = 1\<rparr>"

definition state_on :: "int \<Rightarrow> ICircuitState" where
  "state_on i = \<lparr>cstate_id = i, cstate_name = ''circuit'', isOn = True, commStatus = 0\<rparr>"

definition world_on :: World where
  "world_on = \<lparr>circuits = state_on, log = []\<rparr>"

text \<open>Devices: one that answers every PUT with a given status code, one whose PUT throws;
  one whose GET reports a given fault flag, one whose GET throws, one whose GET returns
  no object.\<close>

definition put_answers :: "int \<Rightarrow> put_service" where
  "put_answers k conn path d = Inr \<lparr>status_code = k, status_message = ''device'', body = None\<rparr>"

definition put_throws :: put_service where
  "put_throws conn path d = Inl (JsError ''Error'' ''ECONNREFUSED'')"

text \<open>A device that is reached on connection c1 at the path of binding b1 only: there it
  answers a request to switch on for 7000 ms with a given status code and a request to
  switch off with no latch with the code 200; every other request throws.\<close>

definition put_device :: "int \<Rightarrow> put_service" where
  "put_device k conn path d =
     (if conn = Str ''c1'' \<and> path = ''/state/device/b1''
      then (if d = \<lparr>put_isOn = True, latch = Some 7000\<rparr>
            then Inr \<lparr>status_code = k, status_message = ''on'', body = None\<rparr>
            else if d = \<lparr>put_isOn = False, latch = None\<rparr>
            then Inr \<lparr>status_code = 200, status_message = ''off'', body = None\<rparr>
            else Inl (JsError ''Error'' ''bad request''))
      else Inl (JsError ''Error'' ''ENOTFOUND''))"

definition get_reports :: "bool \<Rightarrow> get_service" where
  "get_reports b conn path = Inr (Some \<lparr>hasFault = Some b\<rparr>)"

definition get_throws :: get_service where
  "get_throws conn path = Inl (JsError ''Error'' ''ETIMEDOUT'')"

definition get_nothing :: get_service where
  "get_nothing conn path = Inr None"


definition close_throws_for :: "int \<Rightarrow> nat NixieCircuit \<Rightarrow> World \<Rightarrow> (js_error + unit) \<times> World" where
  "close_throws_for k u w =
     (if NixieCircuit_id u = k then (Inl (JsError ''Error'' ''stuck''), w) else (Inr (), w))"

text \<open>Timers: one pending, held by a collection.\<close>

definition timers_one :: Timers where
  "timers_one = \<lparr>pending = [(4, 2000)], next_handle = 5\<rparr>"

definition collection_polling :: "nat NixieCircuitCollection" where
  "collection_polling = (new_NixieCircuitCollection 0)\<lparr>pollTimer := Some 4\<rparr>"

section \<open>Setting the state of a unit\<close>

lemma setCircuitStateAsync_resolves:
  "\<exists>r cs l. NixieCircuit_setCircuitStateAsync put_svc this cstate val lg = (Inr r, cs, l)"
  by (simp add: NixieCircuit_setCircuitStateAsync_def Let_def split: sum.splits)

text \<open>
  Claim C1. For every unit, every state object and both desired values,
  \<^verbatim>\<open>NixieCircuit.setCircuitStateAsync\<close> behaves as follows. A virtual unit (connection id or
  device binding absent or empty) gets \<open>isOn\<close> set to the desired value and the call
  returns the response 200 Success. A bound unit issues the PUT: the request goes to the
  connection id of the unit's circuit, at the path \<^verbatim>\<open>/state/device/\<close> followed by its
  device binding, with the body \<^verbatim>\<open>isOn\<close> the desired value and \<^verbatim>\<open>latch\<close> 7000 when switching
  on and absent when switching off. When the device answers that request, the call returns
  that very response, \<open>isOn\<close> becomes the desired value if the status code is 200 and the
  state object is left as it was for any other code; when that request throws, the state
  object is left as it was, the failure is logged as an error and the call resolves with
  no response (\<^verbatim>\<open>undefined\<close>); it resolves so in no other case.
\<close>

theorem setCircuitStateAsync_commits_on_200:
  "(isNullOrEmpty (connectionId (circuit this)) \<or> isNullOrEmpty (deviceBinding (circuit this)) \<longrightarrow>
      fst (NixieCircuit_setCircuitStateAsync put_svc this cstate val lg)
        = Inr (Some (new_InterfaceServerResponse 200 ''Success'')) \<and>
      fst (snd (NixieCircuit_setCircuitStateAsync put_svc this cstate val lg)) = cstate\<lparr>isOn := val\<rparr>) \<and>
   (\<not> isNullOrEmpty (connectionId (circuit this)) \<and> \<not> isNullOrEmpty (deviceBinding (circuit this)) \<longrightarrow>
      (\<forall>res. put_svc (connectionId (circuit this))
                (''/state/device/'' @ js_to_string (deviceBinding (circuit this)))
                \<lparr>put_isOn = val, latch = (if val then Some 7000 else None)\<rparr> = Inr res \<longrightarrow>
          fst (NixieCircuit_setCircuitStateAsync put_svc this cstate val lg) = Inr (Some res) \<and>
          (status_code res = 200 \<longrightarrow>
             fst (snd (NixieCircuit_setCircuitStateAsync put_svc this cstate val lg)) = cstate\<lparr>isOn := val\<rparr>) \<and>
          (status_code res \<noteq> 200 \<longrightarrow>
             fst (snd (NixieCircuit_setCircuitStateAsync put_svc this cstate val lg)) = cstate)) \<and>
      (\<forall>err. put_svc (connectionId (circuit this))
                (''/state/device/'' @ js_to_string (deviceBinding (circuit this)))
                \<lparr>put_isOn = val, latch = (if val then Some 7000 else None)\<rparr> = Inl err \<longrightarrow>
          fst (NixieCircuit_setCircuitStateAsync put_svc this cstate val lg) = Inr None \<and>
          fst (snd (NixieCircuit_setCircuitStateAsync put_svc this cstate val lg)) = cstate \<and>
          (\<exists>l msg. snd (snd (NixieCircuit_setCircuitStateAsync put_svc this cstate val lg))
                     = l @ [(Error, msg)]))) \<and>
   (fst (NixieCircuit_setCircuitStateAsync put_svc this cstate val lg) = Inr None)
     = (\<not> isNullOrEmpty (connectionId (circuit this)) \<and> \<not> isNullOrEmpty (deviceBinding (circuit this)) \<and>
        isl (put_svc (connectionId (circuit this))
               (''/state/device/'' @ js_to_string (deviceBinding (circuit this)))
               \<lparr>put_isOn = val, latch = (if val then Some 7000 else None)\<rparr>)) \<and>
   putState put_svc this val
     = put_svc (connectionId (circuit this))
         (''/state/device/'' @ js_to_string (deviceBinding (circuit this)))
         \<lparr>put_isOn = val, latch = (if val then Some 7000 else None)\<rparr>"
  by (simp add: NixieCircuit_setCircuitStateAsync_def putState_def Let_def logger_error_def
      split: sum.splits)

text \<open>
  The instances below use a device that answers on connection c1 at
  \<^verbatim>\<open>/state/device/b1\<close> only, and tells a request to switch on with latch 7000 from a request
  to switch off with no latch: a request sent elsewhere (the unit bound to b2), or with
  another body, throws.
\<close>

theorem setCircuitStateAsync_commits_on_200_witness:
  "fst (NixieCircuit_setCircuitStateAsync put_throws unit_virtual (state_off 3) True [])
     = Inr (Some (new_InterfaceServerResponse 200 ''Success'')) \<and>
   isOn (fst (snd (NixieCircuit_setCircuitStateAsync put_throws unit_virtual (state_off 3) True []))) \<and>
   fst (NixieCircuit_setCircuitStateAsync (put_device 200) unit_bound (state_off 5) True [])
     = Inr (Some \<lparr>status_code = 200, status_message = ''on'', body = None\<rparr>) \<and>
   isOn (fst (snd (NixieCircuit_setCircuitStateAsync (put_device 200) unit_bound (state_off 5) True []))) \<and>
   fst (NixieCircuit_setCircuitStateAsync (put_device 503) unit_bound (state_off 5) True [])
     = Inr (Some \<lparr>status_code = 503, status_message = ''on'', body = None\<rparr>) \<and>
   \<not> isOn (fst (snd (NixieCircuit_setCircuitStateAsync (put_device 503) unit_bound (state_off 5) True []))) \<and>
   fst (NixieCircuit_setCircuitStateAsync (put_device 503) unit_bound (state_on 5) False [])
     = Inr (Some \<lparr>status_code = 200, status_message = ''off'', body = None\<rparr>) \<and>
   \<not> isOn (fst (snd (NixieCircuit_setCircuitStateAsync (put_device 503) unit_bound (state_on 5) False []))) \<and>
   fst (NixieCircuit_setCircuitStateAsync (put_device 200)
          (unit_bound\<lparr>circuit := circuit_bound\<lparr>deviceBinding := Str ''b2''\<rparr>\<rparr>) (state_on 5) False [])
     = Inr None \<and>
   isOn (fst (snd (NixieCircuit_setCircuitStateAsync (put_device 200)
          (unit_bound\<lparr>circuit := circuit_bound\<lparr>deviceBinding := Str ''b2''\<rparr>\<rparr>) (state_on 5) False []))) \<and>
   fst (NixieCircuit_setCircuitStateAsync put_throws unit_bound (state_on 5) False []) = Inr None \<and>
   isOn (fst (snd (NixieCircuit_setCircuitStateAsync put_throws unit_bound (state_on 5) False [])))"
  using setCircuitStateAsync_commits_on_200 [of unit_virtual put_throws "state_off 3" True "[]"]
    setCircuitStateAsync_commits_on_200 [of unit_bound "put_device 200" "state_off 5" True "[]"]
    setCircuitStateAsync_commits_on_200 [of unit_bound "put_device 503" "state_off 5" True "[]"]
    setCircuitStateAsync_commits_on_200 [of unit_bound "put_device 503" "state_on 5" False "[]"]
    setCircuitStateAsync_commits_on_200
      [of "unit_bound\<lparr>circuit := circuit_bound\<lparr>deviceBinding := Str ''b2''\<rparr>\<rparr>" "put_device 200"
          "state_on 5" False "[]"]
    setCircuitStateAsync_commits_on_200 [of unit_bound put_throws "state_on 5" False "[]"]
  by (simp add: unit_virtual_def unit_bound_def circuit_virtual_def circuit_bound_def
      new_NixieCircuit_def put_device_def put_throws_def state_off_def state_on_def)

section \<open>Validating the setup of a unit\<close>

lemma defined_nonempty_iff: "defined_nonempty x \<longleftrightarrow> x \<noteq> Undefined \<and> x \<noteq> Str []"
  by (cases x) auto

text \<open>
  Claim C3. For every unit, every circuit and every state object, whatever its prior
  \<open>commStatus\<close>, \<^verbatim>\<open>NixieCircuit.validateSetupAsync\<close> returns, and afterwards: if the
  connection id or the device binding is undefined or empty, \<open>commStatus\<close> is 0; if both
  are given and the status check throws, returns no object, or reports \<open>hasFault\<close> true,
  \<open>commStatus\<close> is 1; if both are given and the check completes with \<open>hasFault\<close> false,
  \<open>commStatus\<close> is 0. Nothing else of the state object changes.
\<close>

theorem validateSetupAsync_commStatus:
  "fst (validateSetupAsync get_svc this c cstate lg) = Inr () \<and>
   (connectionId c = Undefined \<or> connectionId c = Str [] \<or>
    deviceBinding c = Undefined \<or> deviceBinding c = Str [] \<longrightarrow>
      fst (snd (validateSetupAsync get_svc this c cstate lg)) = cstate\<lparr>commStatus := 0\<rparr>) \<and>
   (connectionId c \<noteq> Undefined \<and> connectionId c \<noteq> Str [] \<and>
    deviceBinding c \<noteq> Undefined \<and> deviceBinding c \<noteq> Str [] \<longrightarrow>
      (\<forall>err. get_svc (connectionId c) (''/status/device/'' @ js_to_string (deviceBinding c)) = Inl err \<longrightarrow>
         fst (snd (validateSetupAsync get_svc this c cstate lg)) = cstate\<lparr>commStatus := 1\<rparr>) \<and>
      (get_svc (connectionId c) (''/status/device/'' @ js_to_string (deviceBinding c)) = Inr None \<longrightarrow>
         fst (snd (validateSetupAsync get_svc this c cstate lg)) = cstate\<lparr>commStatus := 1\<rparr>) \<and>
      (\<forall>stat. get_svc (connectionId c) (''/status/device/'' @ js_to_string (deviceBinding c)) = Inr (Some stat) \<longrightarrow>
         (hasFault stat = Some True \<longrightarrow>
            fst (snd (validateSetupAsync get_svc this c cstate lg)) = cstate\<lparr>commStatus := 1\<rparr>) \<and>
         (hasFault stat = Some False \<longrightarrow>
            fst (snd (validateSetupAsync get_svc this c cstate lg)) = cstate\<lparr>commStatus := 0\<rparr>)))"
  by (auto simp: validateSetupAsync_def checkHardwareStatusAsync_def defined_nonempty_iff
      split: sum.splits option.splits prod.splits)

theorem validateSetupAsync_commStatus_witness:
  "commStatus (fst (snd (validateSetupAsync get_throws unit_virtual circuit_virtual (state_off 3) []))) = 0 \<and>
   commStatus (fst (snd (validateSetupAsync get_throws unit_bound circuit_bound (state_on 5) []))) = 1 \<and>
   commStatus (fst (snd (validateSetupAsync get_nothing unit_bound circuit_bound (state_on 5) []))) = 1 \<and>
   commStatus (fst (snd (validateSetupAsync (get_reports True) unit_bound circuit_bound (state_on 5) []))) = 1 \<and>
   commStatus (fst (snd (validateSetupAsync (get_reports False) unit_bound circuit_bound (state_off 5) []))) = 0"
  using validateSetupAsync_commStatus [of get_throws unit_virtual circuit_virtual "state_off 3" "[]"]
    validateSetupAsync_commStatus [of get_throws unit_bound circuit_bound "state_on 5" "[]"]
    validateSetupAsync_commStatus [of get_nothing unit_bound circuit_bound "state_on 5" "[]"]
    validateSetupAsync_commStatus [of "get_reports True" unit_bound circuit_bound "state_on 5" "[]"]
    validateSetupAsync_commStatus [of "get_reports False" unit_bound circuit_bound "state_off 5" "[]"]
  by (simp add: circuit_virtual_def circuit_bound_def get_throws_def get_nothing_def get_reports_def)

section \<open>Closing a unit\<close>

lemma NixieCircuit_closeAsync_eq:
  "NixieCircuit_closeAsync put_svc this w =
     (Inr (),
      w\<lparr>circuits := (circuits w)(circuit_id (circuit this) :=
            fst (snd (NixieCircuit_setCircuitStateAsync put_svc this
                        (getItemById (circuits w) (circuit_id (circuit this))) False (log w)))),
        log := snd (snd (NixieCircuit_setCircuitStateAsync put_svc this
                        (getItemById (circuits w) (circuit_id (circuit this))) False (log w)))\<rparr>)"
proof -
  obtain r cs l where r: "NixieCircuit_setCircuitStateAsync put_svc this
      (getItemById (circuits w) (circuit_id (circuit this))) False (log w) = (Inr r, cs, l)"
    using setCircuitStateAsync_resolves by blast
  show ?thesis
    by (simp add: NixieCircuit_closeAsync_def Let_def r)
qed

text \<open>
  Claim C7. For every unit and every device, \<^verbatim>\<open>NixieCircuit.closeAsync\<close> calls
  \<^verbatim>\<open>setCircuitStateAsync\<close> with the value false on the published state of the unit's id,
  whatever that state is, and resolves: it never rejects. What it leaves behind is what
  that call leaves behind. When the unit is bound and the device call throws, the error
  is logged and the published state of the unit is as before.
\<close>

theorem NixieCircuit_closeAsync_never_rejects:
  "fst (NixieCircuit_closeAsync put_svc this w) = Inr () \<and>
   circuits (snd (NixieCircuit_closeAsync put_svc this w))
     = (circuits w)(circuit_id (circuit this) :=
          fst (snd (NixieCircuit_setCircuitStateAsync put_svc this
                      (getItemById (circuits w) (circuit_id (circuit this))) False (log w)))) \<and>
   log (snd (NixieCircuit_closeAsync put_svc this w))
     = snd (snd (NixieCircuit_setCircuitStateAsync put_svc this
                      (getItemById (circuits w) (circuit_id (circuit this))) False (log w))) \<and>
   (\<not> isNullOrEmpty (connectionId (circuit this)) \<and> \<not> isNullOrEmpty (deviceBinding (circuit this)) \<longrightarrow>
      (\<forall>err. putState put_svc this False = Inl err \<longrightarrow>
         (\<exists>l msg. log (snd (NixieCircuit_closeAsync put_svc this w)) = l @ [(Error, msg)]) \<and>
         circuits (snd (NixieCircuit_closeAsync put_svc this w)) (circuit_id (circuit this))
           = circuits w (circuit_id (circuit this))))"
  by (simp add: NixieCircuit_closeAsync_eq)
    (auto simp: NixieCircuit_setCircuitStateAsync_def Let_def logger_error_def getItemById_def)

theorem NixieCircuit_closeAsync_never_rejects_witness:
  "fst (NixieCircuit_closeAsync put_throws unit_bound world_on) = Inr () \<and>
   isOn (circuits (snd (NixieCircuit_closeAsync put_throws unit_bound world_on)) 5) \<and>
   length (log (snd (NixieCircuit_closeAsync put_throws unit_bound world_on))) = 2 \<and>
   fst (NixieCircuit_closeAsync (put_answers 200) unit_bound world_on) = Inr () \<and>
   \<not> isOn (circuits (snd (NixieCircuit_closeAsync (put_answers 200) unit_bound world_on)) 5)"
  using NixieCircuit_closeAsync_never_rejects [of put_throws unit_bound world_on]
    NixieCircuit_closeAsync_never_rejects [of "put_answers 200" unit_bound world_on]
  by (simp add: NixieCircuit_setCircuitStateAsync_def Let_def logger_error_def logger_info_def
      getItemById_def unit_bound_def circuit_bound_def new_NixieCircuit_def world_on_def state_on_def
      putState_def put_throws_def put_answers_def)

section \<open>Initialising the collection from the configuration\<close>

lemma initAsync_loop_eq:
  "initAsync_loop ncp cs i acc lg =
     (acc @ map (new_NixieCircuit ncp) (filter (\<lambda>c. master c = 1) (drop i cs)),
      lg @ map (\<lambda>c. (Info, ''Initializing Nixie circuit '' @ circuit_name c))
             (filter (\<lambda>c. master c = 1) (drop i cs)))"
proof (induction ncp cs i acc lg rule: initAsync_loop.induct)
  case (1 ncp cs i acc lg)
  show ?case
  proof (cases "i < length cs")
    case False
    then show ?thesis by (simp add: initAsync_loop.simps [of ncp cs i])
  next
    case True
    then have d: "drop i cs = cs ! i # drop (Suc i) cs"
      by (simp add: Cons_nth_drop_Suc)
    show ?thesis
    proof (cases "master (cs ! i) = 1")
      case m: True
      from 1(1) [OF True refl m] True m show ?thesis
        by (simp add: initAsync_loop.simps [of ncp cs i] d logger_info_def Let_def)
    next
      case m: False
      from 1(2) [OF True refl m] True m show ?thesis
        by (simp add: initAsync_loop.simps [of ncp cs i] d Let_def)
    qed
  qed
qed

text \<open>
  Claim C8. For every configuration list and whatever the collection held before,
  \<^verbatim>\<open>NixieCircuitCollection.initAsync\<close> returns, and the collection then holds exactly one
  new unit for each entry whose \<open>master\<close> is 1, in the order of the list, and no unit for
  any other entry; the rest of the collection object is untouched and one line is logged
  per unit. In particular a list of 5 entries of which 2 have \<open>master\<close> 1 gives a
  collection of length 2.
\<close>

theorem initAsync_masters_only:
  "initAsync this cs lg =
     (Inr (),
      this\<lparr>items := map (new_NixieCircuit (collection_controlPanel this)) (filter (\<lambda>c. master c = 1) cs)\<rparr>,
      lg @ map (\<lambda>c. (Info, ''Initializing Nixie circuit '' @ circuit_name c)) (filter (\<lambda>c. master c = 1) cs)) \<and>
   length (items (fst (snd (initAsync this cs lg)))) = length (filter (\<lambda>c. master c = 1) cs) \<and>
   (length cs = 5 \<and> length (filter (\<lambda>c. master c = 1) cs) = 2 \<longrightarrow>
      length (items (fst (snd (initAsync this cs lg)))) = 2)"
  by (simp add: initAsync_def initAsync_loop_eq)

theorem initAsync_masters_only_witness:
  "length five_circuits = 5 \<and>
   length (filter (\<lambda>c. master c = 1) five_circuits) = 2 \<and>
   length (items (fst (snd (initAsync collection_three five_circuits [])))) = 2 \<and>
   items (fst (snd (initAsync collection_three five_circuits []))) = [unit_virtual, unit_bound]"
  using initAsync_masters_only [of collection_three five_circuits "[]"]
  by (simp add: five_circuits_def circuit_aux_def circuit_virtual_def circuit_bound_def
      unit_virtual_def unit_bound_def collection_three_def new_NixieCircuitCollection_def)

section \<open>Creating and looking up units\<close>

lemma update_first_same: "find P xs = Some u \<Longrightarrow> update_first P u xs = xs"
  by (induction xs) (auto split: if_splits)

lemma find_append_new: "find P xs = None \<Longrightarrow> P u \<Longrightarrow> find P (xs @ [u]) = Some u"
  by (induction xs) (auto split: if_splits)

lemma filter_none_of_find: "find P xs = None \<Longrightarrow> filter P xs = []"
  by (induction xs) (auto split: if_splits)

lemma filter_some_of_find: "find P xs = Some u \<Longrightarrow> 1 \<le> length (filter P xs)"
  by (induction xs) (auto split: if_splits)

lemma NixieCircuit_id_new [simp]: "NixieCircuit_id (new_NixieCircuit ncp c) = circuit_id c"
  by (simp add: NixieCircuit_id_def new_NixieCircuit_def)

lemma NixieCircuit_setCircuitAsync_eq: "NixieCircuit_setCircuitAsync u d lg = (Inr (), u, lg)"
  by (simp add: NixieCircuit_setCircuitAsync_def)

lemma initCircuitAsync_found:
  "find (\<lambda>e. NixieCircuit_id e = circuit_id c) (items this) = Some u \<Longrightarrow>
   initCircuitAsync this c = (Inr u, this)"
  by (simp add: initCircuitAsync_def)

lemma initCircuitAsync_created:
  "find (\<lambda>e. NixieCircuit_id e = circuit_id c) (items this) = None \<Longrightarrow>
   initCircuitAsync this c =
     (Inr (new_NixieCircuit (collection_controlPanel this) c),
      this\<lparr>items := items this @ [new_NixieCircuit (collection_controlPanel this) c]\<rparr>)"
  by (simp add: initCircuitAsync_def Let_def)

lemma setCircuitAsync_found:
  "find (\<lambda>e. NixieCircuit_id e = circuit_id c) (items this) = Some u \<Longrightarrow>
   NixieCircuitCollection_setCircuitAsync this c d lg = (Inr (), this, c, lg)"
  by (simp add: NixieCircuitCollection_setCircuitAsync_def NixieCircuit_setCircuitAsync_eq update_first_same)

lemma setCircuitAsync_created:
  "find (\<lambda>e. NixieCircuit_id e = circuit_id c) (items this) = None \<Longrightarrow>
   NixieCircuitCollection_setCircuitAsync this c d lg =
     (Inr (),
      this\<lparr>items := items this @ [new_NixieCircuit (collection_controlPanel this) (c\<lparr>master := 1\<rparr>)]\<rparr>,
      c\<lparr>master := 1\<rparr>,
      logger_debug (''NixieController: A circuit was not found for id #''
                      @ number_to_string (circuit_id c) @ '' creating circuit'') lg)"
  by (simp add: NixieCircuitCollection_setCircuitAsync_def NixieCircuit_setCircuitAsync_eq Let_def)

lemma distinct_ids_append:
  "find (\<lambda>e. NixieCircuit_id e = i) xs = None \<Longrightarrow> NixieCircuit_id u = i \<Longrightarrow>
   distinct (map NixieCircuit_id xs) \<Longrightarrow> distinct (map NixieCircuit_id (xs @ [u]))"
  by (auto simp: find_None_iff)

lemma create_paths_keep_ids_distinct:
  assumes "distinct (map NixieCircuit_id (items this))"
  shows "distinct (map NixieCircuit_id (items (snd (initCircuitAsync this c))))"
    and "distinct (map NixieCircuit_id (items (fst (snd (NixieCircuitCollection_setCircuitAsync this c d lg)))))"
proof -
  show "distinct (map NixieCircuit_id (items (snd (initCircuitAsync this c))))"
  proof (cases "find (\<lambda>e. NixieCircuit_id e = circuit_id c) (items this)")
    case None
    from distinct_ids_append [OF None _ assms, of "new_NixieCircuit (collection_controlPanel this) c"]
    show ?thesis by (simp add: initCircuitAsync_created [OF None])
  next
    case (Some u)
    with assms show ?thesis by (simp add: initCircuitAsync_found)
  qed
  show "distinct (map NixieCircuit_id (items (fst (snd (NixieCircuitCollection_setCircuitAsync this c d lg)))))"
  proof (cases "find (\<lambda>e. NixieCircuit_id e = circuit_id c) (items this)")
    case None
    from distinct_ids_append [OF None _ assms,
        of "new_NixieCircuit (collection_controlPanel this) (c\<lparr>master := 1\<rparr>)"]
    show ?thesis by (simp add: setCircuitAsync_created [OF None])
  next
    case (Some u)
    with assms show ?thesis by (simp add: setCircuitAsync_found)
  qed
qed

text \<open>
  Claim C9. Take a collection that holds at most one unit of the id of a circuit, and call
  \<^verbatim>\<open>initCircuitAsync\<close> or \<^verbatim>\<open>setCircuitAsync\<close> with that circuit, and then either of them
  again with any circuit of the same id. The second call finds the unit that the first one
  found or appended: it leaves the collection as the first call left it (and
  \<^verbatim>\<open>initCircuitAsync\<close> called twice returns the same unit twice), and the collection then
  holds exactly one unit of that id.
\<close>

theorem create_paths_idempotent:
  fixes this :: "'cp NixieCircuitCollection" and ca cb :: Circuit and da db :: 'd and lga lgb :: log
  defines "n_units \<equiv> \<lambda>coll :: 'cp NixieCircuitCollection.
             length (filter (\<lambda>e. NixieCircuit_id e = circuit_id ca) (items coll))"
    and "after_init \<equiv> snd (initCircuitAsync this ca)"
    and "after_set \<equiv> fst (snd (NixieCircuitCollection_setCircuitAsync this ca da lga))"
  assumes same: "circuit_id cb = circuit_id ca"
    and uniq: "length (filter (\<lambda>e. NixieCircuit_id e = circuit_id ca) (items this)) \<le> 1"
  shows
    "snd (initCircuitAsync after_init cb) = after_init \<and>
     fst (initCircuitAsync after_init cb) = fst (initCircuitAsync this ca) \<and>
     n_units (snd (initCircuitAsync after_init cb)) = 1 \<and>
     fst (snd (NixieCircuitCollection_setCircuitAsync after_set cb db lgb)) = after_set \<and>
     n_units (fst (snd (NixieCircuitCollection_setCircuitAsync after_set cb db lgb))) = 1 \<and>
     fst (snd (NixieCircuitCollection_setCircuitAsync after_init cb db lgb)) = after_init \<and>
     n_units (fst (snd (NixieCircuitCollection_setCircuitAsync after_init cb db lgb))) = 1 \<and>
     snd (initCircuitAsync after_set cb) = after_set \<and>
     n_units (snd (initCircuitAsync after_set cb)) = 1"
proof -
  let ?P = "\<lambda>e. NixieCircuit_id e = circuit_id ca"
  have again: "snd (initCircuitAsync coll cb) = coll \<and> fst (initCircuitAsync coll cb) = Inr u \<and>
      fst (snd (NixieCircuitCollection_setCircuitAsync coll cb db lgb)) = coll"
    if "find ?P (items coll) = Some u" for coll :: "'cp NixieCircuitCollection" and u
  proof -
    from that have "find (\<lambda>e. NixieCircuit_id e = circuit_id cb) (items coll) = Some u"
      by (simp add: same)
    then show ?thesis
      by (simp add: initCircuitAsync_found setCircuitAsync_found)
  qed
  have first: "(\<exists>u. find ?P (items after_init) = Some u \<and> fst (initCircuitAsync this ca) = Inr u) \<and>
      n_units after_init = 1 \<and>
      (\<exists>v. find ?P (items after_set) = Some v) \<and> n_units after_set = 1"
  proof (cases "find ?P (items this)")
    case None
    have "find ?P (items this @ [new_NixieCircuit (collection_controlPanel this) ca])
            = Some (new_NixieCircuit (collection_controlPanel this) ca)"
      by (rule find_append_new [OF None]) simp
    moreover have "find ?P (items this @ [new_NixieCircuit (collection_controlPanel this) (ca\<lparr>master := 1\<rparr>)])
            = Some (new_NixieCircuit (collection_controlPanel this) (ca\<lparr>master := 1\<rparr>))"
      by (rule find_append_new [OF None]) simp
    ultimately show ?thesis
      by (simp add: after_init_def after_set_def n_units_def initCircuitAsync_created [OF None]
          setCircuitAsync_created [OF None] filter_none_of_find [OF None])
  next
    case (Some u)
    have "1 \<le> length (filter ?P (items this))"
      by (rule filter_some_of_find [OF Some])
    with uniq have "length (filter ?P (items this)) = 1"
      by simp
    with Some show ?thesis
      by (simp add: after_init_def after_set_def n_units_def initCircuitAsync_found [OF Some]
          setCircuitAsync_found [OF Some])
  qed
  from first obtain u v where u: "find ?P (items after_init) = Some u"
    and ret: "fst (initCircuitAsync this ca) = Inr u"
    and v: "find ?P (items after_set) = Some v"
    by blast
  from first again [OF u] again [OF v] ret show ?thesis
    by simp
qed

theorem create_paths_idempotent_witness:
  "items (snd (initCircuitAsync (snd (initCircuitAsync collection_empty circuit_bound))
                  (circuit_bound\<lparr>circuit_name := ''Pump''\<rparr>))) = [unit_bound] \<and>
   items (fst (snd (NixieCircuitCollection_setCircuitAsync
            (fst (snd (NixieCircuitCollection_setCircuitAsync collection_empty circuit_bound (0::nat) [])))
            (circuit_bound\<lparr>circuit_name := ''Pump''\<rparr>) (1::nat) []))) = [unit_bound] \<and>
   length (filter (\<lambda>e. NixieCircuit_id e = 3)
     (items (snd (initCircuitAsync (snd (initCircuitAsync collection_three circuit_virtual))
                  circuit_virtual)))) = 1"
  using create_paths_idempotent [where cb = "circuit_bound\<lparr>circuit_name := ''Pump''\<rparr>" and ca = circuit_bound
      and this = collection_empty and da = "0::nat" and lga = "[]" and db = "1::nat" and lgb = "[]"]
    create_paths_idempotent [where cb = circuit_virtual and ca = circuit_virtual
      and this = collection_three and da = "0::nat" and lga = "[]" and db = "1::nat" and lgb = "[]"]
  by (simp add: initCircuitAsync_def NixieCircuitCollection_setCircuitAsync_def
      NixieCircuit_setCircuitAsync_def Let_def collection_empty_def collection_three_def
      new_NixieCircuitCollection_def unit_bound_def unit_virtual_def unit_aux_def
      circuit_bound_def circuit_virtual_def circuit_aux_def new_NixieCircuit_def NixieCircuit_id_def)

text \<open>
  Claim C10. For every unit and every data argument, \<^verbatim>\<open>NixieCircuit.setCircuitAsync\<close>
  resolves and leaves the unit (its circuit with it) and the log as they were, whatever
  the data; the published state is not among the things it can reach. So the update path
  of the collection's \<^verbatim>\<open>setCircuitAsync\<close>, taken when a unit of the circuit's id is in the
  collection, resolves and leaves the collection, the circuit handed in and the log as
  they were.
\<close>

theorem NixieCircuit_setCircuitAsync_changes_nothing:
  "NixieCircuit_setCircuitAsync u data lg = (Inr (), u, lg) \<and>
   ((\<exists>e \<in> set (items this). NixieCircuit_id e = circuit_id c) \<longrightarrow>
      NixieCircuitCollection_setCircuitAsync this c data lg = (Inr (), this, c, lg))"
proof -
  have "NixieCircuitCollection_setCircuitAsync this c data lg = (Inr (), this, c, lg)"
    if "\<exists>e \<in> set (items this). NixieCircuit_id e = circuit_id c"
  proof -
    from that obtain v where "find (\<lambda>e. NixieCircuit_id e = circuit_id c) (items this) = Some v"
      by (cases "find (\<lambda>e. NixieCircuit_id e = circuit_id c) (items this)") (auto simp: find_None_iff)
    then show ?thesis by (rule setCircuitAsync_found)
  qed
  then show ?thesis by (simp add: NixieCircuit_setCircuitAsync_eq)
qed

theorem NixieCircuit_setCircuitAsync_changes_nothing_witness:
  "NixieCircuit_setCircuitAsync unit_bound ''name=Pump 2;master=0'' []
     = (Inr (), unit_bound, []) \<and>
   NixieCircuitCollection_setCircuitAsync collection_three (circuit_bound\<lparr>circuit_name := ''Pump 2'', master := 0\<rparr>)
       ''name=Pump 2;master=0'' []
     = (Inr (), collection_three, circuit_bound\<lparr>circuit_name := ''Pump 2'', master := 0\<rparr>, [])"
  using NixieCircuit_setCircuitAsync_changes_nothing [of unit_bound "''name=Pump 2;master=0''" "[]"
      collection_three "circuit_bound\<lparr>circuit_name := ''Pump 2'', master := 0\<rparr>"]
  by (simp add: collection_three_def unit_bound_def circuit_bound_def NixieCircuit_id_def new_NixieCircuit_def)

section \<open>Closing the collection\<close>

lemma closeAsync_loop_suffix:
  "i \<le> length xs \<Longrightarrow>
   closeAsync_loop cl i (xs @ ys) w =
     (fst (closeAsync_loop cl i xs w) @ ys, snd (closeAsync_loop cl i xs w))"
proof (induction i arbitrary: xs w)
  case 0
  then show ?case by simp
next
  case (Suc i)
  then have lt: "i < length xs" by simp
  have sp: "splice1 i (xs @ ys) = splice1 i xs @ ys"
    using lt by (simp add: splice1_def)
  have len: "i \<le> length (splice1 i xs)"
    using lt by (simp add: splice1_def)
  show ?case
  proof (cases "cl (xs ! i) w")
    case (Pair r w')
    show ?thesis
    proof (cases r)
      case (Inl err)
      with Pair lt Suc.IH [of xs] show ?thesis
        by (simp add: nth_append)
    next
      case (Inr u)
      with Pair lt Suc.IH [OF len] sp show ?thesis
        by (simp add: nth_append)
    qed
  qed
qed

lemma closeAsync_loop_close_each:
  "closeAsync_loop cl (length xs) xs w =
     (rev (fst (close_each cl (rev xs) w)), snd (close_each cl (rev xs) w))"
proof (induction xs arbitrary: w rule: rev_induct)
  case Nil
  then show ?case by simp
next
  case (snoc x xs)
  have sp: "splice1 (length xs) (xs @ [x]) = xs"
    by (simp add: splice1_def)
  show ?case
  proof (cases "cl x w")
    case (Pair r w')
    show ?thesis
    proof (cases r)
      case (Inl err)
      with Pair snoc [of "w'\<lparr>log := logger_error (''Error stopping Nixie Circuit '' @ err_to_string err) (log w')\<rparr>"]
      show ?thesis
        by (simp add: closeAsync_loop_suffix split: prod.splits)
    next
      case (Inr u)
      with Pair snoc [of w'] sp show ?thesis
        by simp
    qed
  qed
qed

lemma close_each_kept:
  "(\<And>u w. isl (fst (cl u w)) = throws u) \<Longrightarrow> fst (close_each cl us w) = filter throws us"
proof (induction us arbitrary: w)
  case Nil
  then show ?case by simp
next
  case (Cons u us)
  show ?case
  proof (cases "cl u w")
    case (Pair r w')
    with Cons.prems [of u w] have t: "throws u = isl r" by simp
    show ?thesis
      using Pair t Cons.IH [OF Cons.prems]
      by (cases r) (simp_all add: case_prod_beta)
  qed
qed

lemma close_each_all_succeed:
  "(\<And>u w. \<exists>w'. cl u w = (Inr (), w')) \<Longrightarrow> fst (close_each cl us w) = []"
proof (induction us arbitrary: w)
  case Nil
  then show ?case by simp
next
  case (Cons u us)
  from Cons.prems [of u w] obtain w' where "cl u w = (Inr (), w')" by blast
  with Cons.IH [OF Cons.prems] show ?case by simp
qed

lemma NixieCircuitCollection_closeAsync_empties:
  "fst (NixieCircuitCollection_closeAsync put_svc this w) = Inr () \<and>
   items (fst (snd (NixieCircuitCollection_closeAsync put_svc this w))) = []"
proof -
  have "\<exists>w'. NixieCircuit_closeAsync put_svc u v = (Inr (), w')" for u :: "'a NixieCircuit" and v
    by (simp add: NixieCircuit_closeAsync_eq)
  then have "fst (close_each (NixieCircuit_closeAsync put_svc) (rev (items this)) w) = []"
    by (rule close_each_all_succeed)
  then show ?thesis
    by (simp add: NixieCircuitCollection_closeAsync_def closeAsync_with_def closeAsync_loop_close_each)
qed

text \<open>
  Claim C6. For every collection, every close operation of the units (throwing for some
  units or for none) and every world, \<^verbatim>\<open>NixieCircuitCollection.closeAsync\<close> never rejects,
  and it does what the description says: it visits the units from the tail backward,
  calls the close operation of every one, drops a unit whose close succeeds, logs the
  error of a close that throws and goes on with the units before it. So when throwing
  depends on the unit alone, the units left in the collection are exactly those whose
  close threw, in their old order. The method of the source is this loop at the close
  method of \<^verbatim>\<open>NixieCircuit\<close>.
\<close>

theorem closeAsync_removes_closed_units:
  "closeAsync_with unit_close this w =
     (Inr (),
      this\<lparr>items := rev (fst (close_each unit_close (rev (items this)) w))\<rparr>,
      snd (close_each unit_close (rev (items this)) w)) \<and>
   ((\<forall>u v. isl (fst (unit_close u v)) = throws u) \<longrightarrow>
      items (fst (snd (closeAsync_with unit_close this w))) = filter throws (items this)) \<and>
   NixieCircuitCollection_closeAsync put_svc this w = closeAsync_with (NixieCircuit_closeAsync put_svc) this w"
proof -
  have 1: "closeAsync_with unit_close this w =
     (Inr (),
      this\<lparr>items := rev (fst (close_each unit_close (rev (items this)) w))\<rparr>,
      snd (close_each unit_close (rev (items this)) w))"
    by (simp add: closeAsync_with_def closeAsync_loop_close_each)
  have 2: "items (fst (snd (closeAsync_with unit_close this w))) = filter throws (items this)"
    if "\<forall>u v. isl (fst (unit_close u v)) = throws u"
  proof -
    from that have "fst (close_each unit_close (rev (items this)) w) = filter throws (rev (items this))"
      by (intro close_each_kept) simp
    then show ?thesis by (simp add: 1 rev_filter)
  qed
  from 1 2 show ?thesis by (simp add: NixieCircuitCollection_closeAsync_def)
qed

theorem closeAsync_removes_closed_units_witness:
  "fst (closeAsync_with (close_throws_for 5) collection_three world_on) = Inr () \<and>
   items (fst (snd (closeAsync_with (close_throws_for 5) collection_three world_on))) = [unit_bound] \<and>
   log (snd (snd (closeAsync_with (close_throws_for 5) collection_three world_on)))
     = [(Error, ''Error stopping Nixie Circuit Error: stuck'')]"
  using closeAsync_removes_closed_units [of "close_throws_for 5" collection_three world_on
      "\<lambda>u. NixieCircuit_id u = 5" put_throws]
  by (simp add: close_throws_for_def collection_three_def unit_virtual_def unit_bound_def unit_aux_def
      circuit_virtual_def circuit_bound_def circuit_aux_def NixieCircuit_id_def new_NixieCircuit_def
      world_on_def logger_error_def err_to_string_def)

section \<open>Setting the state through the collection\<close>




section \<open>The master flag of created units\<close>

lemma initAsync_all_master:
  "\<forall>u \<in> set (items (fst (snd (initAsync this cs lg)))). master (circuit u) = 1"
  by (simp add: initAsync_def initAsync_loop_eq new_NixieCircuit_def)

lemma setCircuitAsync_keeps_master:
  assumes "\<forall>u \<in> set (items this). master (circuit u) = 1"
  shows "\<forall>u \<in> set (items (fst (snd (NixieCircuitCollection_setCircuitAsync this c d lg)))).
           master (circuit u) = 1"
proof (cases "find (\<lambda>e. NixieCircuit_id e = circuit_id c) (items this)")
  case None
  with assms show ?thesis
    by (simp add: setCircuitAsync_created new_NixieCircuit_def)
next
  case (Some u)
  with assms show ?thesis
    by (simp add: setCircuitAsync_found)
qed

text \<open>
  Claim C4 at a failing input. \<^verbatim>\<open>initAsync\<close> creates units of master circuits only and the
  create path of \<^verbatim>\<open>setCircuitAsync\<close> sets \<open>master\<close> to 1 before it creates the unit (the two
  lemmas above); the create path of \<^verbatim>\<open>initCircuitAsync\<close> does not. Called on an empty
  collection with a circuit whose \<open>master\<close> is 0, it appends a unit of that circuit as it
  is: the collection then holds a unit whose \<open>master\<close> is 0.
\<close>

theorem initCircuitAsync_appends_non_master:
  "master circuit_aux = 0 \<and>
   initCircuitAsync collection_empty circuit_aux
     = (Inr unit_aux, collection_empty\<lparr>items := [unit_aux]\<rparr>) \<and>
   master (circuit (hd (items (snd (initCircuitAsync collection_empty circuit_aux))))) = 0"
  by (simp add: initCircuitAsync_def Let_def collection_empty_def new_NixieCircuitCollection_def
      unit_aux_def circuit_aux_def new_NixieCircuit_def)

section \<open>The poll timer of the collection\<close>

text \<open>
  Claim C5, as stated, has the new timer scheduled after \<open>pollingInterval\<close> milliseconds
  whenever the interval is set. For a polling interval set to 0 the timer is scheduled
  after 10000 ms; for one set to -5, or to 2147483648, it is armed at 1 ms.
\<close>

theorem pollCircuitsAsync_interval_zero:
  "pending (fst (snd (snd (pollCircuitsAsync (collection_polling\<lparr>pollingInterval := Number 0\<rparr>) timers_one []))))
     = [(5, 10000)] \<and>
   pending (fst (snd (snd (pollCircuitsAsync (collection_polling\<lparr>pollingInterval := Number (- 5)\<rparr>) timers_one []))))
     = [(5, 1)] \<and>
   pending (fst (snd (snd (pollCircuitsAsync (collection_polling\<lparr>pollingInterval := Number 2147483648\<rparr>) timers_one []))))
     = [(5, 1)]"
  by (simp add: pollCircuitsAsync_def pollCircuitsAsync_with_def Let_def setTimeout_def clearTimeout_def
      TIMEOUT_MAX_def collection_polling_def new_NixieCircuitCollection_def timers_one_def)

text \<open>
  Claim C5, amended. For every call of \<^verbatim>\<open>pollCircuitsAsync\<close>, whether the statements of
  its try block complete or throw: the timer the collection held is cancelled, exactly
  one new timer is armed and its handle is stored in the collection, and every other
  timer is left alone. So if no timer was pending but the one the collection held,
  exactly one timer is pending after the call. The new timer is scheduled after
  \<open>pollingInterval\<close> milliseconds when the interval is a whole number from 1 to
  2147483647, after 10000 ms when it is unset, \<^verbatim>\<open>NaN\<close> or 0, and after 1 ms when it is a
  whole number below 0 or above 2147483647. The call resolves when the try block
  completes and rejects with the error thrown otherwise, having logged it.
\<close>

theorem pollCircuitsAsync_rearms_one_timer:
  "(\<exists>d. pending (fst (snd (snd (pollCircuitsAsync_with pass this t lg))))
          = filter (\<lambda>p. Some (fst p) \<noteq> pollTimer this) (pending t) @ [(next_handle t, d)]) \<and>
   (\<forall>n. pollingInterval this = Number n \<and> 1 \<le> n \<and> n \<le> 2147483647 \<longrightarrow>
      pending (fst (snd (snd (pollCircuitsAsync_with pass this t lg))))
        = filter (\<lambda>p. Some (fst p) \<noteq> pollTimer this) (pending t) @ [(next_handle t, n)]) \<and>
   (pollingInterval this = Unset \<or> pollingInterval this = NaN \<or> pollingInterval this = Number 0 \<longrightarrow>
      pending (fst (snd (snd (pollCircuitsAsync_with pass this t lg))))
        = filter (\<lambda>p. Some (fst p) \<noteq> pollTimer this) (pending t) @ [(next_handle t, 10000)]) \<and>
   (\<forall>n. pollingInterval this = Number n \<and> (n < 0 \<or> 2147483647 < n) \<longrightarrow>
      pending (fst (snd (snd (pollCircuitsAsync_with pass this t lg))))
        = filter (\<lambda>p. Some (fst p) \<noteq> pollTimer this) (pending t) @ [(next_handle t, 1)]) \<and>
   fst (snd (pollCircuitsAsync_with pass this t lg)) = this\<lparr>pollTimer := Some (next_handle t)\<rparr> \<and>
   next_handle (fst (snd (snd (pollCircuitsAsync_with pass this t lg)))) = Suc (next_handle t) \<and>
   ((\<forall>p \<in> set (pending t). pollTimer this = Some (fst p)) \<longrightarrow>
      length (pending (fst (snd (snd (pollCircuitsAsync_with pass this t lg))))) = 1) \<and>
   (pass = None \<longrightarrow>
      fst (pollCircuitsAsync_with pass this t lg) = Inr () \<and>
      snd (snd (snd (pollCircuitsAsync_with pass this t lg))) = lg) \<and>
   (\<forall>err. pass = Some err \<longrightarrow>
      fst (pollCircuitsAsync_with pass this t lg) = Inl err \<and>
      snd (snd (snd (pollCircuitsAsync_with pass this t lg)))
        = lg @ [(Error, ''Error polling circuits: '' @ message err)]) \<and>
   pollCircuitsAsync this t lg = pollCircuitsAsync_with None this t lg"
proof -
  let ?armed = "if 1 \<le> interval_or (pollingInterval this) 10000
                   \<and> interval_or (pollingInterval this) 10000 \<le> TIMEOUT_MAX
                then interval_or (pollingInterval this) 10000 else 1"
  let ?kept = "filter (\<lambda>p. Some (fst p) \<noteq> pollTimer this) (pending t)"
  have none: "?kept = []" if "\<forall>p \<in> set (pending t). pollTimer this = Some (fst p)"
    using that by (auto simp: filter_empty_conv)
  have pend: "pending (fst (snd (snd (pollCircuitsAsync_with pass this t lg))))
                = ?kept @ [(next_handle t, ?armed)]"
    by (cases "pollTimer this")
      (simp_all add: pollCircuitsAsync_with_def Let_def setTimeout_def clearTimeout_def)
  have ex: "\<exists>d. pending (fst (snd (snd (pollCircuitsAsync_with pass this t lg))))
                = ?kept @ [(next_handle t, d)]"
    using pend by blast
  have inr: "?armed = n" if "pollingInterval this = Number n" "1 \<le> n" "n \<le> 2147483647" for n
    using that by (simp add: TIMEOUT_MAX_def)
  have dflt: "?armed = 10000"
    if "pollingInterval this = Unset \<or> pollingInterval this = NaN \<or> pollingInterval this = Number 0"
    using that by (auto simp: TIMEOUT_MAX_def)
  have out: "?armed = 1" if "pollingInterval this = Number n" "n < 0 \<or> 2147483647 < n" for n
    using that by (auto simp: TIMEOUT_MAX_def)
  have rest: "fst (snd (pollCircuitsAsync_with pass this t lg)) = this\<lparr>pollTimer := Some (next_handle t)\<rparr> \<and>
      next_handle (fst (snd (snd (pollCircuitsAsync_with pass this t lg)))) = Suc (next_handle t)"
    by (cases "pollTimer this")
      (simp_all add: pollCircuitsAsync_with_def Let_def setTimeout_def clearTimeout_def)
  have resN: "fst (pollCircuitsAsync_with None this t lg) = Inr () \<and>
      snd (snd (snd (pollCircuitsAsync_with None this t lg))) = lg"
    by (simp add: pollCircuitsAsync_with_def Let_def setTimeout_def)
  have resS: "fst (pollCircuitsAsync_with (Some err) this t lg) = Inl err \<and>
      snd (snd (snd (pollCircuitsAsync_with (Some err) this t lg)))
        = lg @ [(Error, ''Error polling circuits: '' @ message err)]" for err
    by (simp add: pollCircuitsAsync_with_def Let_def setTimeout_def logger_error_def)
  have one: "length (pending (fst (snd (snd (pollCircuitsAsync_with pass this t lg))))) = 1"
    if "\<forall>p \<in> set (pending t). pollTimer this = Some (fst p)"
    using none [OF that] by (simp add: pend)
  have a: "\<forall>n. pollingInterval this = Number n \<and> 1 \<le> n \<and> n \<le> 2147483647 \<longrightarrow>
      pending (fst (snd (snd (pollCircuitsAsync_with pass this t lg)))) = ?kept @ [(next_handle t, n)]"
    using inr by (simp add: pend)
  have b: "pollingInterval this = Unset \<or> pollingInterval this = NaN \<or> pollingInterval this = Number 0 \<longrightarrow>
      pending (fst (snd (snd (pollCircuitsAsync_with pass this t lg)))) = ?kept @ [(next_handle t, 10000)]"
    using dflt by (simp add: pend)
  have c: "\<forall>n. pollingInterval this = Number n \<and> (n < 0 \<or> 2147483647 < n) \<longrightarrow>
      pending (fst (snd (snd (pollCircuitsAsync_with pass this t lg)))) = ?kept @ [(next_handle t, 1)]"
    using out by (simp add: pend)
  have d: "(pass = None \<longrightarrow>
      fst (pollCircuitsAsync_with pass this t lg) = Inr () \<and>
      snd (snd (snd (pollCircuitsAsync_with pass this t lg))) = lg) \<and>
   (\<forall>err. pass = Some err \<longrightarrow>
      fst (pollCircuitsAsync_with pass this t lg) = Inl err \<and>
      snd (snd (snd (pollCircuitsAsync_with pass this t lg)))
        = lg @ [(Error, ''Error polling circuits: '' @ message err)])"
    using resN resS by simp
  have e: "pollCircuitsAsync this t lg = pollCircuitsAsync_with None this t lg"
    by (simp add: pollCircuitsAsync_def)
  from ex a b c rest one d e show ?thesis
    by blast
qed

theorem pollCircuitsAsync_rearms_one_timer_witness:
  "pending (fst (snd (snd (pollCircuitsAsync_with (Some (JsError ''Error'' ''pass failed''))
       collection_polling timers_one [])))) = [(5, 2000)] \<and>
   fst (pollCircuitsAsync_with (Some (JsError ''Error'' ''pass failed'')) collection_polling timers_one [])
     = Inl (JsError ''Error'' ''pass failed'') \<and>
   pending (fst (snd (snd (pollCircuitsAsync (collection_polling\<lparr>pollingInterval := Unset\<rparr>) timers_one []))))
     = [(5, 10000)] \<and>
   pending (fst (snd (snd (pollCircuitsAsync (collection_polling\<lparr>pollingInterval := NaN\<rparr>) timers_one []))))
     = [(5, 10000)] \<and>
   pending (fst (snd (snd (pollCircuitsAsync (collection_polling\<lparr>pollingInterval := Number (- 5)\<rparr>) timers_one []))))
     = [(5, 1)] \<and>
   pollTimer (fst (snd (pollCircuitsAsync (collection_polling\<lparr>pollingInterval := Unset\<rparr>) timers_one [])))
     = Some 5 \<and>
   fst (pollCircuitsAsync (collection_polling\<lparr>pollingInterval := Unset\<rparr>) timers_one []) = Inr ()"
  using pollCircuitsAsync_rearms_one_timer
      [of "Some (JsError ''Error'' ''pass failed'')" collection_polling timers_one "[]"]
    pollCircuitsAsync_rearms_one_timer
      [of None "collection_polling\<lparr>pollingInterval := Unset\<rparr>" timers_one "[]"]
    pollCircuitsAsync_rearms_one_timer
      [of None "collection_polling\<lparr>pollingInterval := NaN\<rparr>" timers_one "[]"]
    pollCircuitsAsync_rearms_one_timer
      [of None "collection_polling\<lparr>pollingInterval := Number (- 5)\<rparr>" timers_one "[]"]
  by (simp add: collection_polling_def new_NixieCircuitCollection_def timers_one_def)

end
